theory Spec2Isabelle
  imports Main "HOL-Library.Char_ord" "HOL-Library.List_Lexorder" "HOL-Library.AList"
begin

section \<open>Python values, errors and strings\<close>

text \<open>
  The program is a single Python module, \<^verbatim>\<open>s2rdd.py\<close>. Python strings are modelled as
  \<^typ>\<open>string\<close>; the model covers the characters of code below 256 that Isabelle's
  \<^typ>\<open>char\<close> has, and the case conversions act on the ASCII letters.
  An exception that leaves a function is the \<open>Inl\<close> branch of its result.
\<close>

datatype error =
    ValueError
  | UnboundLocalError
  | KeyError
  | AttributeError
  | JSONDecodeError

datatype json =
    JNull
  | JBool bool
  | JNum int
  | JStr string
  | JArr "json list"
  | JObj "(string \<times> json) list"

text \<open>
  \<^verbatim>\<open>s.replace(old, new)\<close>: every non-overlapping occurrence of \<open>old\<close>, found from the
  left, is replaced; an empty \<open>old\<close> matches before every character and at the end.
\<close>

function str_replace :: "string \<Rightarrow> string \<Rightarrow> string \<Rightarrow> string" where
  "str_replace [] old new = (if old = [] then new else [])"
| "str_replace (c # s) old new =
     (if old = [] then new @ c # str_replace s old new
      else if take (length old) (c # s) = old
           then new @ str_replace (drop (length old) (c # s)) old new
           else c # str_replace s old new)"
  by pat_completeness auto
termination
  by (relation "measure (\<lambda>(s, old, new). length s)") auto

definition char_lower :: "char \<Rightarrow> char" where
  "char_lower c =
     (if CHR ''A'' \<le> c \<and> c \<le> CHR ''Z'' then char_of (of_char c + (32::nat)) else c)"

definition char_upper :: "char \<Rightarrow> char" where
  "char_upper c =
     (if CHR ''a'' \<le> c \<and> c \<le> CHR ''z'' then char_of (of_char c - (32::nat)) else c)"

definition str_lower :: "string \<Rightarrow> string" where
  "str_lower s = map char_lower s"

definition str_upper :: "string \<Rightarrow> string" where
  "str_upper s = map char_upper s"

section \<open>The includes renderer\<close>

record server =
  url :: string

text \<open>
  \<^verbatim>\<open>re.search(r"https:\/\/api.*(\/.*\/.*)", url)\<close>.
  After the literal \<^verbatim>\<open>https://api\<close> every remaining element of the pattern is either
  \<^verbatim>\<open>.*\<close>, which does not cross a line feed, or a slash, so the rest of the match
  lies in the text up to the next line feed. The first \<^verbatim>\<open>.*\<close> is greedy: it
  takes the longest prefix after which a slash, some text, a second slash and some text still
  follow, so group 1 starts at the last slash but one of that line and, the last
  \<^verbatim>\<open>.*\<close> being greedy as well, runs to the end of the line.
  \<open>url_group line\<close> is group 1 for the text \<open>line\<close> that follows the literal, or
  \<open>None\<close> when the line has fewer than two slashes.
\<close>

definition url_group :: "string \<Rightarrow> string option" where
  "url_group line =
     (let r = rev line;
          b = takeWhile (\<lambda>c. c \<noteq> CHR ''/'') r
      in case dropWhile (\<lambda>c. c \<noteq> CHR ''/'') r of
           [] \<Rightarrow> None
         | _ # r2 \<Rightarrow>
             (let a = takeWhile (\<lambda>c. c \<noteq> CHR ''/'') r2
              in case dropWhile (\<lambda>c. c \<noteq> CHR ''/'') r2 of
                   [] \<Rightarrow> None
                 | _ # _ \<Rightarrow> Some (CHR ''/'' # rev a @ CHR ''/'' # rev b)))"

text \<open>
  The search tries the start positions from the left and returns group 1 of the first
  position at which the pattern matches.
\<close>

fun re_search_base_url :: "string \<Rightarrow> string option" where
  "re_search_base_url [] = None"
| "re_search_base_url (c # s) =
     (if take 11 (c # s) = ''https://api''
      then (case url_group (takeWhile (\<lambda>x. x \<noteq> CHR 0x0A) (drop 11 (c # s))) of
              Some g \<Rightarrow> Some g
            | None \<Rightarrow> re_search_base_url s)
      else re_search_base_url s)"

definition base_url_default :: string where
  "base_url_default = ''BASE_URL_NOT_FOUND_AND_NEEDS_TO_BE_SET_MANUALLY''"

text \<open>
  The loop over the servers: \<^verbatim>\<open>base_url\<close> starts as the default and is assigned at
  every server whose url matches; the loop has no \<^verbatim>\<open>break\<close>.
\<close>

fun find_base_url :: "server list \<Rightarrow> string \<Rightarrow> string" where
  "find_base_url [] base_url = base_url"
| "find_base_url (sv # servers) base_url =
     (case re_search_base_url (url sv) of
        Some g \<Rightarrow> find_base_url servers g
      | None \<Rightarrow> find_base_url servers base_url)"

text \<open>
  \<open>writable\<close> tells whether \<^verbatim>\<open>open(target_filename, "w")\<close> succeeds and \<open>dt\<close> is the
  formatted current time. The result is the success flag and the file written, if any.
\<close>

definition write_robot_framework_includes_file ::
  "(string \<Rightarrow> bool) \<Rightarrow> string \<Rightarrow> server list \<Rightarrow> string \<Rightarrow> string \<Rightarrow> string
     \<Rightarrow> bool \<times> (string \<times> string) option" where
  "write_robot_framework_includes_file writable dt servers template_string
       target_filename openapi_filename =
     (let base_url = find_base_url servers base_url_default;
          t1 = str_replace template_string ''REPLACE_ROBOT_BASE_URL_REPLACE'' base_url;
          t2 = str_replace t1 ''REPLACE_OPENAPI_FILENAME_REPLACE'' openapi_filename;
          t3 = str_replace t2 ''REPLACE_DATETIME_CREATION_REPLACE'' dt
      in if writable target_filename then (True, Some (target_filename, t3))
         else (False, None))"

section \<open>The interface tree and the test-case model\<close>

text \<open>
  The resolved interface description, as \<^verbatim>\<open>parser.specification\<close> holds it. A Python
  dict is an association list in insertion order; an optional key is an \<open>option\<close>
  field, \<open>None\<close> meaning that the key is absent.
\<close>

record property_spec =
  prop_enum :: "json list option"
  prop_example :: "json option"

record schema_object =
  schema_required :: "string list option"
  schema_properties :: "(string \<times> property_spec) list option"

record media_type =
  schema :: "schema_object option"
  media_example :: "json option"

record request_body =
  content :: "(string \<times> media_type) list option"

record operation =
  op_tags :: "string list option"
  op_summary :: "string option"
  op_description :: "string option"
  operationId :: "string option"
  requestBody :: "request_body option"
  responses :: "(string \<times> json) list option"

record openapi_specification =
  servers :: "server list option"
  paths :: "(string \<times> (string \<times> operation) list) list option"

text \<open>
  The value stored under \<^verbatim>\<open>"tags"\<close> is the list of the operation, or the empty
  string when the operation has none.
\<close>

datatype tags_value = TagsList "string list" | TagsStr string

record test_case =
  properties :: "(string \<times> property_spec) list option"
  required :: "string list option"
  example :: "json option"
  tags :: tags_value
  summary :: string
  description :: string
  expected_status_code :: json

type_synonym service_key = "string \<times> string \<times> string"

type_synonym service_dict = "(service_key \<times> test_case) list"

subsection \<open>Integer coercion\<close>

text \<open>
  \<^verbatim>\<open>int(s)\<close> for a string: surrounding white space is dropped, one sign may lead, and
  the rest is decimal digits, single underscores allowed between two digits. Anything else
  raises \<^verbatim>\<open>ValueError\<close>, here \<open>None\<close>.
\<close>

definition is_space :: "char \<Rightarrow> bool" where
  "is_space c =
     (let n = (of_char c :: nat)
      in (9 \<le> n \<and> n \<le> 13) \<or> (28 \<le> n \<and> n \<le> 32) \<or> n = 133 \<or> n = 160)"

definition is_digit :: "char \<Rightarrow> bool" where
  "is_digit c = (CHR ''0'' \<le> c \<and> c \<le> CHR ''9'')"

definition str_strip :: "string \<Rightarrow> string" where
  "str_strip s = rev (dropWhile is_space (rev (dropWhile is_space s)))"

fun int_digits :: "string \<Rightarrow> string option" where
  "int_digits [] = None"
| "int_digits [c] = (if is_digit c then Some [c] else None)"
| "int_digits (c # d # s) =
     (if \<not> is_digit c then None
      else if d = CHR ''_'' then map_option (Cons c) (int_digits s)
      else map_option (Cons c) (int_digits (d # s)))"

definition digits_value :: "string \<Rightarrow> int" where
  "digits_value ds = fold (\<lambda>d n. 10 * n + (int (of_char d) - 48)) ds 0"

definition py_int :: "string \<Rightarrow> int option" where
  "py_int s =
     (case str_strip s of
        [] \<Rightarrow> None
      | c # r \<Rightarrow>
          (if c = CHR ''-'' then map_option (\<lambda>ds. - digits_value ds) (int_digits r)
           else if c = CHR ''+'' then map_option digits_value (int_digits r)
           else map_option digits_value (int_digits (c # r))))"

subsection \<open>The walker\<close>

text \<open>
  The state of the two nested loops of \<^verbatim>\<open>parse_openapi_spec\<close>: the dictionary built
  so far, the set of variable names, and the local \<^verbatim>\<open>expected_status_code\<close>, which no
  iteration resets; \<open>None\<close> says that it has not been assigned yet.
\<close>

record walker_state =
  service_dictionary :: service_dict
  varset :: "string set"
  status_code_var :: "json option"

definition request_body_fields ::
  "operation \<Rightarrow> string list option \<times> (string \<times> property_spec) list option \<times> json option" where
  "request_body_fields opn =
     (case requestBody opn of
        None \<Rightarrow> (None, None, None)
      | Some rb \<Rightarrow>
          (case content rb of
             None \<Rightarrow> (None, None, None)
           | Some ct \<Rightarrow>
               (case map_of ct ''application/json'' of
                  None \<Rightarrow> (None, None, None)
                | Some mt \<Rightarrow>
                    (case schema mt of
                       None \<Rightarrow> (None, None, media_example mt)
                     | Some sc \<Rightarrow>
                         (schema_required sc, schema_properties sc, media_example mt)))))"

text \<open>
  The status code after the \<^verbatim>\<open>responses\<close> block of one iteration, from the value
  the local had before it.
\<close>

definition response_status :: "operation \<Rightarrow> json option \<Rightarrow> json option" where
  "response_status opn previous =
     (case responses opn of
        None \<Rightarrow> previous
      | Some [] \<Rightarrow> previous
      | Some ((k, _) # _) \<Rightarrow>
          (case py_int k of Some n \<Rightarrow> Some (JNum n) | None \<Rightarrow> Some (JStr '''')))"

definition parse_operation ::
  "string \<Rightarrow> walker_state \<Rightarrow> string \<times> operation \<Rightarrow> error + walker_state" where
  "parse_operation path st entry =
     (case entry of (operation, opn) \<Rightarrow>
        (case operationId opn of
           None \<Rightarrow> Inl ValueError
         | Some operationid \<Rightarrow>
             (case request_body_fields opn of (req, props, ex) \<Rightarrow>
                (case response_status opn (status_code_var st) of
                   None \<Rightarrow> Inl UnboundLocalError
                 | Some code \<Rightarrow>
                     Inr \<lparr>service_dictionary =
                            AList.update (operationid, operation, path)
                              \<lparr>properties = props, required = req, example = ex,
                               tags = (case op_tags opn of Some ts \<Rightarrow> TagsList ts
                                       | None \<Rightarrow> TagsStr ''''),
                               summary = (case op_summary opn of Some s \<Rightarrow> s | None \<Rightarrow> ''''),
                               description =
                                 (case op_description opn of Some s \<Rightarrow> s | None \<Rightarrow> ''''),
                               expected_status_code = code\<rparr>
                              (service_dictionary st),
                          varset =
                            (case props of
                               None \<Rightarrow> varset st
                             | Some ps \<Rightarrow> fold insert (map fst ps) (varset st)),
                          status_code_var = Some code\<rparr>))))"

fun parse_operations ::
  "string \<Rightarrow> (string \<times> operation) list \<Rightarrow> walker_state \<Rightarrow> error + walker_state" where
  "parse_operations path [] st = Inr st"
| "parse_operations path (entry # operations) st =
     (case parse_operation path st entry of
        Inl e \<Rightarrow> Inl e
      | Inr st' \<Rightarrow> parse_operations path operations st')"

fun parse_paths ::
  "(string \<times> (string \<times> operation) list) list \<Rightarrow> walker_state \<Rightarrow> error + walker_state" where
  "parse_paths [] st = Inr st"
| "parse_paths ((path, operations) # ps) st =
     (case parse_operations path operations st of
        Inl e \<Rightarrow> Inl e
      | Inr st' \<Rightarrow> parse_paths ps st')"

text \<open>
  \<open>resolve\<close> is \<^verbatim>\<open>ResolvingParser\<close>: the resolved tree, or \<open>None\<close> when the
  parser raises. \<open>set_list\<close> is \<^verbatim>\<open>list(varset)\<close>, the order in which Python
  enumerates a set of strings. The result is the tuple
  \<^verbatim>\<open>(_success, _servers, _service_dictionary, _all_service_variables)\<close>.
\<close>

definition parse_openapi_spec ::
  "(string \<Rightarrow> openapi_specification option) \<Rightarrow> (string set \<Rightarrow> string list) \<Rightarrow> string
     \<Rightarrow> error + (bool \<times> server list \<times> service_dict \<times> string list)" where
  "parse_openapi_spec resolve set_list openapi_filename =
     (case resolve openapi_filename of
        None \<Rightarrow> Inr (False, [], [], [])
      | Some sp \<Rightarrow>
          (case paths sp of
             None \<Rightarrow> Inl KeyError
           | Some ps \<Rightarrow>
               (case parse_paths ps
                       \<lparr>service_dictionary = [], varset = {}, status_code_var = None\<rparr> of
                  Inl e \<Rightarrow> Inl e
                | Inr st \<Rightarrow>
                    Inr (True,
                         (case servers sp of Some svs \<Rightarrow> svs | None \<Rightarrow> []),
                         service_dictionary st,
                         sort_key str_lower (set_list (varset st))))))"

section \<open>The matrix renderer\<close>

text \<open>
  The worksheet of \<^verbatim>\<open>xlsxwriter\<close> is its grid of cells, each holding the value and
  the format of the last \<^verbatim>\<open>write\<close> to it, and the list validations attached by
  \<^verbatim>\<open>data_validation\<close>. Column widths are not part of the model.
\<close>

datatype cell_format =
    bold_test_case_cell_format
  | bold_test_variables_cell_format
  | test_case_cell_format
  | test_variables_cell_format
  | optional_variable_cell_format
  | required_variable_cell_format

record worksheet =
  cells :: "nat \<times> nat \<Rightarrow> (json \<times> cell_format) option"
  validations :: "nat \<times> nat \<Rightarrow> json list option"

definition start_column :: nat where
  "start_column = 6"

definition ws_write :: "nat \<Rightarrow> nat \<Rightarrow> json \<Rightarrow> cell_format \<Rightarrow> worksheet \<Rightarrow> worksheet" where
  "ws_write row col cell_content fmt ws = ws\<lparr>cells := (cells ws)((row, col) \<mapsto> (cell_content, fmt))\<rparr>"

definition data_validation :: "nat \<Rightarrow> nat \<Rightarrow> json list \<Rightarrow> worksheet \<Rightarrow> worksheet" where
  "data_validation row col vs ws = ws\<lparr>validations := (validations ws)((row, col) \<mapsto> vs)\<rparr>"

fun write_header_variables :: "string list \<Rightarrow> nat \<Rightarrow> worksheet \<Rightarrow> worksheet" where
  "write_header_variables [] col ws = ws"
| "write_header_variables (variable # vs) col ws =
     write_header_variables vs (col + 1)
       (ws_write 0 col (JStr (''${'' @ variable @ ''}'')) bold_test_variables_cell_format ws)"

text \<open>The result is \<^verbatim>\<open>maxcol\<close> and the worksheet after the header row is written.\<close>

definition write_excel_header :: "string list \<Rightarrow> worksheet \<Rightarrow> nat \<times> worksheet" where
  "write_excel_header all_service_variables ws =
     (let ws0 = ws_write 0 0 (JStr ''*** Test Case ***'') bold_test_case_cell_format ws;
          ws1 = ws_write 0 1 (JStr ''[Documentation]'') bold_test_case_cell_format ws0;
          ws2 = ws_write 0 2 (JStr ''[Tags]'') bold_test_case_cell_format ws1;
          ws3 = ws_write 0 3 (JStr ''${API_CALL}'') bold_test_case_cell_format ws2;
          ws4 = ws_write 0 4 (JStr ''${API_OPERATION}'') bold_test_case_cell_format ws3;
          ws5 = ws_write 0 5 (JStr ''${EXPECTED_STATUS_CODE}'') bold_test_case_cell_format ws4
      in (start_column + length all_service_variables,
          write_header_variables all_service_variables start_column ws5))"

text \<open>
  \<^verbatim>\<open>all_service_variables.index(prop)\<close>: the first position of \<open>prop\<close>, or
  \<open>None\<close> where Python raises \<^verbatim>\<open>ValueError\<close>.
\<close>

fun list_index :: "'a list \<Rightarrow> 'a \<Rightarrow> nat option" where
  "list_index [] x = None"
| "list_index (y # ys) x = (if y = x then Some 0 else map_option Suc (list_index ys x))"

fun str_join :: "string \<Rightarrow> string list \<Rightarrow> string" where
  "str_join sep [] = []"
| "str_join sep [x] = x"
| "str_join sep (x # y # ys) = x @ sep @ str_join sep (y # ys)"

text \<open>
  \<^verbatim>\<open>",".join(tags)\<close> when \<^verbatim>\<open>tags\<close> is truthy; joining a string joins its characters.
\<close>

definition tags_csv_string :: "tags_value \<Rightarrow> string" where
  "tags_csv_string tgs =
     (case tgs of
        TagsList ts \<Rightarrow> (if ts = [] then [] else str_join '','' ts)
      | TagsStr s \<Rightarrow> (if s = [] then [] else str_join '','' (map (\<lambda>c. [c]) s)))"

text \<open>
  The body of the loop over the properties of one test case: \<open>entry\<close> is the property name
  with \<^verbatim>\<open>properties[prop]\<close>.
\<close>

definition write_property_cell ::
  "string list \<Rightarrow> bool \<Rightarrow> string list option \<Rightarrow> nat \<Rightarrow> string \<times> property_spec
     \<Rightarrow> worksheet \<Rightarrow> worksheet" where
  "write_property_cell all_service_variables add_example_data req row entry ws =
     (case entry of (prop, pspec) \<Rightarrow>
        (let col = (case list_index all_service_variables prop of
                      Some i \<Rightarrow> int i
                    | None \<Rightarrow> - 1)
         in if col \<noteq> - 1
            then
              (let fmt = (case req of
                            None \<Rightarrow> optional_variable_cell_format
                          | Some rs \<Rightarrow>
                              (if rs \<noteq> [] \<and> prop \<in> set rs
                               then required_variable_cell_format
                               else optional_variable_cell_format));
                   column_content =
                     (if add_example_data
                      then (case prop_example pspec of Some e \<Rightarrow> e | None \<Rightarrow> JStr '''')
                      else JStr '''');
                   ws1 = ws_write row (nat (col + int start_column)) column_content fmt ws
               in case prop_enum pspec of
                    None \<Rightarrow> ws1
                  | Some enum_value \<Rightarrow>
                      (if enum_value \<noteq> []
                       then data_validation row (nat (col + int start_column)) enum_value ws1
                       else ws1))
            else ws))"

definition write_test_case_row ::
  "string list \<Rightarrow> bool \<Rightarrow> nat \<Rightarrow> service_key \<times> test_case \<Rightarrow> worksheet \<Rightarrow> worksheet" where
  "write_test_case_row all_service_variables add_example_data row entry ws =
     (case entry of ((test_case_name, test_case_operation, test_case_endpoint), tc) \<Rightarrow>
        (let ws0 = ws_write row 0 (JStr test_case_name) test_case_cell_format ws;
             ws1 = ws_write row 1 (JStr (summary tc)) test_case_cell_format ws0;
             ws2 = ws_write row 2 (JStr (tags_csv_string (tags tc))) test_case_cell_format ws1;
             ws3 = ws_write row 3 (JStr test_case_name) test_case_cell_format ws2;
             ws4 = ws_write row 4 (JStr (str_upper test_case_operation)) test_case_cell_format ws3;
             ws5 = ws_write row 5 (expected_status_code tc) test_case_cell_format ws4
         in case properties tc of
              None \<Rightarrow> ws5
            | Some props \<Rightarrow>
                (if props \<noteq> []
                 then fold (write_property_cell all_service_variables add_example_data
                              (required tc) row) props ws5
                 else ws5)))"

fun write_test_case_rows ::
  "string list \<Rightarrow> bool \<Rightarrow> service_dict \<Rightarrow> nat \<Rightarrow> worksheet \<Rightarrow> worksheet" where
  "write_test_case_rows all_service_variables add_example_data [] row ws = ws"
| "write_test_case_rows all_service_variables add_example_data (entry # test_cases) row ws =
     write_test_case_rows all_service_variables add_example_data test_cases (row + 1)
       (write_test_case_row all_service_variables add_example_data row entry ws)"

definition fill_background :: "nat \<Rightarrow> nat \<Rightarrow> worksheet \<Rightarrow> worksheet" where
  "fill_background maxrow maxcol ws =
     fold (\<lambda>row. fold (\<lambda>col. ws_write row col (JStr '''') test_variables_cell_format)
                    [start_column..<maxcol])
       [1..<maxrow + 1] ws"

text \<open>The result is \<^verbatim>\<open>maxrow\<close> and the worksheet after the data rows are written.\<close>

definition write_excel_test_case_data ::
  "string list \<Rightarrow> service_dict \<Rightarrow> bool \<Rightarrow> worksheet \<Rightarrow> nat \<times> worksheet" where
  "write_excel_test_case_data all_service_variables test_cases add_example_data ws =
     (let maxrow = length test_cases;
          maxcol = start_column + length all_service_variables
      in (maxrow,
          write_test_case_rows all_service_variables add_example_data test_cases 1
            (fill_background maxrow maxcol ws)))"

section \<open>The template renderer\<close>

definition my_arguments_string :: "string list \<Rightarrow> string" where
  "my_arguments_string all_service_variables =
     fold (\<lambda>service_var acc. acc @ ''  '' @ (''${'' @ service_var @ ''}''))
       all_service_variables ''${API_CALL}  ${API_OPERATION}  ${EXPECTED_STATUS_CODE}''"

text \<open>
  \<^verbatim>\<open>re.finditer(r"\{(.*?)\}", test_case_endpoint, re.MULTILINE)\<close>, as the list of
  group 1 of the matches. A match starts at an opening brace; the lazy \<^verbatim>\<open>.*?\<close> stops
  at the first closing brace and does not cross a line feed, so an opening brace with a line
  feed before the next closing brace, or with no closing brace behind it, starts no match.
  The scan goes on behind a match.
\<close>

function path_parameters :: "string \<Rightarrow> string list" where
  "path_parameters [] = []"
| "path_parameters (c # s) =
     (if c = CHR ''{'' \<and> length (takeWhile (\<lambda>x. x \<noteq> CHR ''}'') s) < length s
         \<and> CHR 0x0A \<notin> set (takeWhile (\<lambda>x. x \<noteq> CHR ''}'') s)
      then takeWhile (\<lambda>x. x \<noteq> CHR ''}'') s
             # path_parameters (drop (length (takeWhile (\<lambda>x. x \<noteq> CHR ''}'') s) + 1) s)
      else path_parameters s)"
  by pat_completeness auto
termination
  by (relation "measure length") auto

definition url_parameters :: "string \<Rightarrow> string" where
  "url_parameters test_case_endpoint =
     (if CHR ''{'' \<in> set test_case_endpoint
      then [CHR 0x0A] @
           concat (map (\<lambda>grp. ''    Set Test Variable  ${'' @ grp @ ''}  '' @ grp @ [CHR 0x0A])
                     (path_parameters test_case_endpoint))
      else [])"

definition rewrite_endpoint :: "string \<Rightarrow> string" where
  "rewrite_endpoint test_case_endpoint =
     (if CHR ''{'' \<in> set test_case_endpoint
      then str_replace test_case_endpoint ''{'' ''${''
      else test_case_endpoint)"

definition properties_generator_string :: "(string \<times> property_spec) list \<Rightarrow> string" where
  "properties_generator_string props =
     fold (\<lambda>prop acc.
             acc @ ''    ${JsonDictionary}=  Add Variable To Dict If Value Is Not None  VARIABLE_NAME=''
                 @ prop @ ''  VARIABLE_VALUE=${'' @ prop
                 @ ''}  OUTPUT_DICT=${JsonDictionary}'' @ [CHR 0x0A])
       (map fst props) []"

text \<open>The text written for one test case: the body of the loop over \<^verbatim>\<open>test_cases\<close>.\<close>

definition render_test_case ::
  "string \<Rightarrow> string \<Rightarrow> string \<Rightarrow> service_key \<times> test_case \<Rightarrow> string" where
  "render_test_case arguments keyword_body_template keyword_no_body_template entry =
     (case entry of ((test_case_name, test_case_operation, test_case_endpoint), tc) \<Rightarrow>
        (let has_properties = (case properties tc of None \<Rightarrow> False | Some props \<Rightarrow> props \<noteq> []);
             operation_upper = str_upper test_case_operation;
             k0 = (if has_properties then keyword_body_template else keyword_no_body_template);
             k1 = str_replace k0 ''REPLACE_OPERATION_REPLACE'' operation_upper;
             k2 = str_replace k1 ''REPLACE_OPERATIONID_REPLACE'' test_case_name;
             k3 = str_replace k2 ''REPLACE_DOCUMENTATION_REPLACE'' (summary tc);
             k4 = str_replace k3 ''REPLACE_DATA_DRIVER_ARGUMENTS_REPLACE'' arguments;
             k5 = str_replace k4 ''REPLACE_URL_PARAMETERS_REPLACE''
                    (url_parameters test_case_endpoint);
             k6 = (case properties tc of
                     None \<Rightarrow> k5
                   | Some props \<Rightarrow>
                       (if props \<noteq> []
                        then str_replace k5 ''REPLACE_SCHEMA_GENERATOR_STRING_REPLACE''
                               (properties_generator_string props)
                        else k5));
             k7 = str_replace k6 ''REPLACE_HTTP_OPERATION_REPLACE'' operation_upper
         in str_replace k7 ''REPLACE_API_PATH_REPLACE'' (rewrite_endpoint test_case_endpoint)))"

text \<open>
  The result is the success flag and, when the file could be opened, the file with
  everything written to it. \<open>footer_template\<close> is \<open>None\<close> when there is no footer.
\<close>

definition write_robot_framework_test_case_file ::
  "(string \<Rightarrow> bool) \<Rightarrow> string \<Rightarrow> string list \<Rightarrow> service_dict \<Rightarrow> string \<Rightarrow> string \<Rightarrow> string
     \<Rightarrow> string option \<Rightarrow> string \<Rightarrow> string \<Rightarrow> bool \<times> (string \<times> string) option" where
  "write_robot_framework_test_case_file writable dt all_service_variables test_cases
       target_filename openapi_filename header_template footer_template
       keyword_body_template keyword_no_body_template =
     (if \<not> writable target_filename then (False, None)
      else
        (let arguments = my_arguments_string all_service_variables;
             h1 = str_replace header_template ''REPLACE_DATA_DRIVER_ARGUMENTS_REPLACE'' arguments;
             h2 = str_replace h1 ''REPLACE_OPENAPI_FILENAME_REPLACE'' openapi_filename;
             h3 = str_replace h2 ''REPLACE_DATETIME_CREATION_REPLACE'' dt;
             body = concat (map (render_test_case arguments keyword_body_template
                                   keyword_no_body_template) test_cases);
             footer = (case footer_template of None \<Rightarrow> [] | Some f \<Rightarrow> f)
         in (True, Some (target_filename, h3 @ body @ footer))))"

section \<open>The environment\<close>

text \<open>
  Everything the program takes from outside itself: the file system, the resolving parser,
  the enumeration order of a Python set, the tracker's answers and the clock.
  \<open>requests_post n u b\<close> is the answer to the \<open>n\<close>-th request of the run, sent to
  \<open>u\<close> with body \<open>b\<close>, or \<open>None\<close> when \<^verbatim>\<open>requests.post\<close> raises.
\<close>

record http_response =
  status_code :: nat
  json_body :: "(string \<times> string) list option"

record environment =
  path_exists :: "string \<Rightarrow> bool"
  path_isdir :: "string \<Rightarrow> bool"
  mkdir_ok :: "string \<Rightarrow> bool"
  path_isfile :: "string \<Rightarrow> bool"
  file_content :: "string \<Rightarrow> string option"
  resolving_parser :: "string \<Rightarrow> openapi_specification option"
  set_list :: "string set \<Rightarrow> string list"
  requests_post :: "nat \<Rightarrow> string \<Rightarrow> string \<Rightarrow> http_response option"
  json_loads_ok :: "string \<Rightarrow> bool"
  writable :: "string \<Rightarrow> bool"
  now :: string

definition path_join :: "string \<Rightarrow> string \<Rightarrow> string" where
  "path_join a b =
     (if b \<noteq> [] \<and> hd b = CHR ''/'' then b
      else if a = [] \<or> last a = CHR ''/'' then a @ b
      else a @ ''/'' @ b)"

definition check_and_create_data_directory :: "environment \<Rightarrow> string \<Rightarrow> bool" where
  "check_and_create_data_directory env directory_name =
     (if \<not> path_exists env directory_name then mkdir_ok env directory_name
      else path_isdir env directory_name)"

definition check_if_file_exists :: "environment \<Rightarrow> string \<Rightarrow> bool" where
  "check_if_file_exists env filename = path_isfile env filename"

text \<open>The content of the file; \<open>None\<close> stands for \<^verbatim>\<open>(False, None)\<close>.\<close>

definition read_template_file_from_disk :: "environment \<Rightarrow> string \<Rightarrow> string option" where
  "read_template_file_from_disk env filename =
     (if \<not> check_if_file_exists env filename then None else file_content env filename)"

text \<open>
  The templates in the order includes, header, footer, keyword with body, keyword without
  body; \<open>None\<close> stands for the result whose first component is \<^verbatim>\<open>False\<close>.
\<close>

definition read_template_files ::
  "environment \<Rightarrow> (string \<times> string \<times> string option \<times> string \<times> string) option" where
  "read_template_files env =
     (case read_template_file_from_disk env
             (path_join ''templates'' ''template_robot_generic_includes.robot'') of
        None \<Rightarrow> None
      | Some includes_string \<Rightarrow>
     (case read_template_file_from_disk env
             (path_join ''templates'' ''template_robot_header.robot'') of
        None \<Rightarrow> None
      | Some header_string \<Rightarrow>
     (case read_template_file_from_disk env
             (path_join ''templates'' ''template_robot_keyword_with_request_body.robot'') of
        None \<Rightarrow> None
      | Some keyword_body_string \<Rightarrow>
     (case read_template_file_from_disk env
             (path_join ''templates'' ''template_robot_keyword_without_request_body.robot'') of
        None \<Rightarrow> None
      | Some keyword_no_body_string \<Rightarrow>
          Some (includes_string, header_string,
                read_template_file_from_disk env
                  (path_join ''templates'' ''template_robot_footer.robot''),
                keyword_body_string, keyword_no_body_string)))))"

section \<open>The ticket mirror\<close>

definition JIRA_SERVER_URL :: string where
  "JIRA_SERVER_URL = ''https://jira.acme.com:443''"

text \<open>
  \<^verbatim>\<open>if resp:\<close> is the \<^verbatim>\<open>ok\<close> property of the response: no status from 400 to 599.
  The body of a response is taken to be a JSON object with string values.
\<close>

definition create_jira_item ::
  "environment \<Rightarrow> nat \<Rightarrow> string \<Rightarrow> string \<Rightarrow> nat \<Rightarrow> bool \<Rightarrow> bool \<times> string option" where
  "create_jira_item env n request_body request_url expected_http_response extract_ticket_id =
     (case requests_post env n request_url request_body of
        None \<Rightarrow> (False, None)
      | Some resp \<Rightarrow>
          (if 400 \<le> status_code resp \<and> status_code resp < 600 then (False, None)
           else if status_code resp \<noteq> expected_http_response then (False, None)
           else if \<not> extract_ticket_id then (True, None)
           else (case json_body resp of
                   None \<Rightarrow> (False, None)
                 | Some json_response \<Rightarrow>
                     (if json_response = [] then (False, None)
                      else (case map_of json_response ''key'' of
                              Some jira_ticket_key \<Rightarrow> (True, Some jira_ticket_key)
                            | None \<Rightarrow> (False, None))))))"

text \<open>
  The request body of the test ticket for one test case: the local \<^verbatim>\<open>test_string\<close>.
\<close>

definition jira_test_string :: "string \<Rightarrow> service_key \<times> test_case \<Rightarrow> string" where
  "jira_test_string jira_test_template entry =
     (case entry of ((test_case_name, test_case_operation, test_case_endpoint), tc) \<Rightarrow>
        (let d = str_replace (str_replace (description tc) [CHR 0x22] [CHR 0x5C, CHR 0x22])
                   [CHR 0x27] [CHR 0x5C, CHR 0x27];
             t1 = str_replace jira_test_template ''REPLACE_DESCRIPTION_REPLACE'' d
         in str_replace t1 ''REPLACE_TEST_CASE_NAME_REPLACE'' test_case_name))"

definition jira_issue_url :: string where
  "jira_issue_url = JIRA_SERVER_URL @ ''/jira/rest/api/2/issue/''"

text \<open>
  One iteration of the loop over the test cases, as the \<open>n\<close>-th request of the run: the
  record after the iteration and the ticket created, if any. The key \<^verbatim>\<open>"tags"\<close> is in
  every record and \<^verbatim>\<open>type(... == list)\<close> is the class \<^verbatim>\<open>bool\<close>, which is truthy,
  so \<^verbatim>\<open>append\<close> is called on whatever the record holds; a string has no
  \<^verbatim>\<open>append\<close>.
\<close>

definition create_test_ticket ::
  "environment \<Rightarrow> string \<Rightarrow> nat \<Rightarrow> service_key \<times> test_case
     \<Rightarrow> error + (test_case \<times> string option)" where
  "create_test_ticket env jira_test_template n entry =
     (let test_string = jira_test_string jira_test_template entry
      in if \<not> json_loads_ok env test_string then Inl JSONDecodeError
         else
           (case create_jira_item env n test_string jira_issue_url 201 True of
              (True, Some jira_ticket_id) \<Rightarrow>
                (case tags (snd entry) of
                   TagsList ts \<Rightarrow>
                     Inr ((snd entry)\<lparr>tags := TagsList (ts @ [jira_ticket_id])\<rparr>,
                          Some jira_ticket_id)
                 | TagsStr s \<Rightarrow> Inl AttributeError)
            | _ \<Rightarrow> Inr (snd entry, None)))"

fun create_test_tickets ::
  "environment \<Rightarrow> string \<Rightarrow> nat \<Rightarrow> service_dict \<Rightarrow> error + (service_dict \<times> string list)" where
  "create_test_tickets env jira_test_template n [] = Inr ([], [])"
| "create_test_tickets env jira_test_template n (entry # test_cases) =
     (case create_test_ticket env jira_test_template n entry of
        Inl e \<Rightarrow> Inl e
      | Inr (tc, ticket) \<Rightarrow>
          (case create_test_tickets env jira_test_template (n + 1) test_cases of
             Inl e \<Rightarrow> Inl e
           | Inr (test_cases', tickets) \<Rightarrow>
               Inr ((fst entry, tc) # test_cases',
                    (case ticket of Some t \<Rightarrow> [t] | None \<Rightarrow> []) @ tickets)))"

text \<open>
  \<^verbatim>\<open>json.dumps({"add": jira_test_tickets})\<close>, for ticket keys that need no escaping.
\<close>

definition json_dumps_add :: "string list \<Rightarrow> string" where
  "json_dumps_add tickets =
     [CHR ''{'', CHR 0x22] @ ''add'' @ [CHR 0x22] @ '': [''
       @ str_join '', '' (map (\<lambda>t. [CHR 0x22] @ t @ [CHR 0x22]) tickets) @ '']}''"

text \<open>
  The result is the success flag and the test cases, whose tags the function has changed in
  place.
\<close>

definition create_jira_tickets ::
  "environment \<Rightarrow> string \<Rightarrow> service_dict \<Rightarrow> string \<Rightarrow> error + (bool \<times> service_dict)" where
  "create_jira_tickets env jira_access_key test_cases openapi_filename =
     (case read_template_file_from_disk env (path_join ''templates'' ''template_jira_test_case'') of
        None \<Rightarrow> Inr (False, test_cases)
      | Some jira_test_template \<Rightarrow>
     (case read_template_file_from_disk env
             (path_join ''templates'' ''template_jira_test_execution'') of
        None \<Rightarrow> Inr (False, test_cases)
      | Some jira_test_execution_template \<Rightarrow>
     (case create_test_tickets env jira_test_template 0 test_cases of
        Inl e \<Rightarrow> Inl e
      | Inr (test_cases', jira_test_tickets) \<Rightarrow>
          (if length jira_test_tickets > 0
           then
             (case create_jira_item env (length test_cases)
                     (str_replace jira_test_execution_template ''REPLACE_API_NAME_REPLACE''
                        openapi_filename)
                     jira_issue_url 201 True of
                (True, Some jira_ticket_id) \<Rightarrow>
                  Inr (fst (create_jira_item env (length test_cases + 1)
                              (json_dumps_add jira_test_tickets)
                              (JIRA_SERVER_URL @ ''/jira/rest/raven/1.0/api/testexec/''
                                 @ jira_ticket_id @ ''/test'')
                              200 False),
                       test_cases')
              | (success, _) \<Rightarrow> Inr (success, test_cases'))
           else Inr (False, test_cases')))))"

section \<open>The orchestrator\<close>

datatype artifact = ExcelFile worksheet | TextFile string

definition empty_worksheet :: worksheet where
  "empty_worksheet = \<lparr>cells = (\<lambda>_. None), validations = (\<lambda>_. None)\<rparr>"

text \<open>
  The result is what the call returns, or the exception that leaves it, together with the
  output files written on the way, in the order of writing.
\<close>

definition transform_openapi_to_robot ::
  "environment \<Rightarrow> string \<Rightarrow> string \<Rightarrow> string \<Rightarrow> bool \<Rightarrow> string option
     \<Rightarrow> (error + bool) \<times> (string \<times> artifact) list" where
  "transform_openapi_to_robot env openapi_filename output_filename output_dir
       add_example_data jira_access_key =
     (let robot_target_filename = path_join output_dir (output_filename @ ''.robot'');
          excel_target_filename = path_join output_dir (output_filename @ ''.xlsx'');
          includes_target_filename = path_join output_dir ''includes.resource''
      in
      if \<not> check_and_create_data_directory env output_dir then (Inr False, [])
      else
      (case read_template_files env of
         None \<Rightarrow> (Inr False, [])
       | Some (includes_string, header_string, footer_string,
               keyword_body_string, keyword_no_body_string) \<Rightarrow>
      if \<not> check_if_file_exists env openapi_filename then (Inr False, [])
      else
      (case parse_openapi_spec (resolving_parser env) (set_list env) openapi_filename of
         Inl e \<Rightarrow> (Inl e, [])
       | Inr (success, svs, parsed_dictionary, all_service_variables) \<Rightarrow>
      if \<not> success then (Inr False, [])
      else
      (case (case jira_access_key of
               None \<Rightarrow> Inr (True, parsed_dictionary)
             | Some k \<Rightarrow>
                 (if k = [] then Inr (True, parsed_dictionary)
                  else create_jira_tickets env k parsed_dictionary openapi_filename)) of
         Inl e \<Rightarrow> (Inl e, [])
       | Inr (success, test_cases) \<Rightarrow>
      if \<not> success then (Inr False, [])
      else
      (let ws1 = snd (write_excel_header all_service_variables empty_worksheet);
           ws2 = snd (write_excel_test_case_data all_service_variables test_cases
                        add_example_data ws1)
       in
       if \<not> writable env excel_target_filename then (Inr False, [])
       else
       (case write_robot_framework_includes_file (writable env) (now env) svs includes_string
               includes_target_filename openapi_filename of
          (success, includes_file) \<Rightarrow>
       if \<not> success
       then (Inr False, [(excel_target_filename, ExcelFile ws2)])
       else
       (case write_robot_framework_test_case_file (writable env) (now env)
               all_service_variables test_cases robot_target_filename openapi_filename
               header_string footer_string keyword_body_string keyword_no_body_string of
          (success, robot_file) \<Rightarrow>
            (Inr True,
             (excel_target_filename, ExcelFile ws2)
               # map (\<lambda>(n, t). (n, TextFile t))
                   ((case includes_file of Some f \<Rightarrow> [f] | None \<Rightarrow> [])
                    @ (case robot_file of Some f \<Rightarrow> [f] | None \<Rightarrow> []))))))))))"

section \<open>Notions used to state the properties\<close>

text \<open>
  The operations of a \<^verbatim>\<open>paths\<close> dict in the order in which the two nested loops of the
  walker visit them, each with its path and its method.
\<close>

definition traversal ::
  "(string \<times> (string \<times> operation) list) list \<Rightarrow> (string \<times> string \<times> operation) list" where
  "traversal ps = concat (map (\<lambda>(path, operations). map (\<lambda>(m, opn). (path, m, opn)) operations) ps)"

text \<open>The walker on the flattened list of visits.\<close>

fun walk :: "(string \<times> string \<times> operation) list \<Rightarrow> walker_state \<Rightarrow> error + walker_state" where
  "walk [] st = Inr st"
| "walk ((path, m, opn) # visits) st =
     (case parse_operation path st (m, opn) of
        Inl e \<Rightarrow> Inl e
      | Inr st' \<Rightarrow> walk visits st')"


definition has_status :: "operation \<Rightarrow> bool" where
  "has_status opn = (case responses opn of None \<Rightarrow> False | Some rs \<Rightarrow> rs \<noteq> [])"

definition property_names :: "operation \<Rightarrow> string list" where
  "property_names opn =
     (case request_body_fields opn of
        (req, Some props, ex) \<Rightarrow> map fst props
      | (req, None, ex) \<Rightarrow> [])"




section \<open>Sample inputs\<close>

text \<open>
  A small interface description in the shape of the pet store example: \<open>listPets\<close> answers
  with \<^verbatim>\<open>default\<close> first, \<open>createPet\<close> has a JSON request body and \<open>showPetById\<close>
  has neither tags nor responses.
\<close>

definition list_pets :: operation where
  "list_pets =
     \<lparr>op_tags = Some [''pets''], op_summary = Some ''List all pets'', op_description = None,
      operationId = Some ''listPets'', requestBody = None,
      responses = Some [(''default'', JNull), (''200'', JNull)]\<rparr>"

definition pet_schema :: schema_object where
  "pet_schema =
     \<lparr>schema_required = Some [''name''],
      schema_properties =
        Some [(''name'', \<lparr>prop_enum = None, prop_example = Some (JStr ''Rex'')\<rparr>),
              (''Tag'', \<lparr>prop_enum = Some [JStr ''dog'', JStr ''cat''], prop_example = None\<rparr>)]\<rparr>"

definition create_pet :: operation where
  "create_pet =
     \<lparr>op_tags = Some [''pets''], op_summary = Some ''Create a pet'',
      op_description = Some ''Creates a pet'',
      operationId = Some ''createPet'',
      requestBody =
        Some \<lparr>content = Some [(''application/json'',
                                \<lparr>schema = Some pet_schema, media_example = None\<rparr>)]\<rparr>,
      responses = Some [(''201'', JNull)]\<rparr>"

definition show_pet :: operation where
  "show_pet =
     \<lparr>op_tags = None, op_summary = None, op_description = None,
      operationId = Some ''showPetById'', requestBody = None, responses = None\<rparr>"

definition anonymous_operation :: operation where
  "anonymous_operation =
     \<lparr>op_tags = None, op_summary = None, op_description = None,
      operationId = None, requestBody = None, responses = Some [(''200'', JNull)]\<rparr>"

definition petstore_paths :: "(string \<times> (string \<times> operation) list) list" where
  "petstore_paths =
     [(''/pets'', [(''get'', list_pets), (''post'', create_pet)]),
      (''/pets/{petId}'', [(''get'', show_pet)])]"

definition petstore :: openapi_specification where
  "petstore =
     \<lparr>servers = Some [\<lparr>url = ''https://api.example.com/v1/pets''\<rparr>],
      paths = Some petstore_paths\<rparr>"

definition anonymous_paths :: "(string \<times> (string \<times> operation) list) list" where
  "anonymous_paths = [(''/pets'', [(''get'', anonymous_operation)])]"

definition anonymous_spec :: openapi_specification where
  "anonymous_spec = \<lparr>servers = None, paths = Some anonymous_paths\<rparr>"



definition resolve_petstore :: "string \<Rightarrow> openapi_specification option" where
  "resolve_petstore f = Some petstore"

definition resolve_anonymous :: "string \<Rightarrow> openapi_specification option" where
  "resolve_anonymous f = Some anonymous_spec"


definition resolve_nothing :: "string \<Rightarrow> openapi_specification option" where
  "resolve_nothing f = None"

text \<open>Templates, a tracker that creates every ticket, and environments built from them.\<close>

definition sample_templates :: "string \<Rightarrow> string option" where
  "sample_templates f =
     (if f = ''templates/template_robot_generic_includes.robot''
        then Some ''URL=REPLACE_ROBOT_BASE_URL_REPLACE''
      else if f = ''templates/template_robot_header.robot''
        then Some ''H REPLACE_DATA_DRIVER_ARGUMENTS_REPLACE;''
      else if f = ''templates/template_robot_keyword_with_request_body.robot''
        then Some ''B REPLACE_OPERATIONID_REPLACE;''
      else if f = ''templates/template_robot_keyword_without_request_body.robot''
        then Some ''N REPLACE_OPERATIONID_REPLACE;''
      else if f = ''templates/template_jira_test_case''
        then Some ''{REPLACE_TEST_CASE_NAME_REPLACE}''
      else if f = ''templates/template_jira_test_execution''
        then Some ''{REPLACE_API_NAME_REPLACE}''
      else None)"

definition sample_isfile :: "string \<Rightarrow> bool" where
  "sample_isfile f = (f = ''petstore.yaml'' \<or> sample_templates f \<noteq> None)"

definition always :: "string \<Rightarrow> bool" where
  "always f = True"

definition all_but_robot :: "string \<Rightarrow> bool" where
  "all_but_robot f = (f \<noteq> ''output/export.robot'')"

definition ticket_created :: "nat \<Rightarrow> string \<Rightarrow> string \<Rightarrow> http_response option" where
  "ticket_created n u b = Some \<lparr>status_code = 201, json_body = Some [(''key'', ''PET-1'')]\<rparr>"

definition sample_env ::
  "(string \<Rightarrow> openapi_specification option) \<Rightarrow> (string \<Rightarrow> bool) \<Rightarrow> environment" where
  "sample_env resolve can_write =
     \<lparr>path_exists = always, path_isdir = always, mkdir_ok = always,
      path_isfile = sample_isfile, file_content = sample_templates,
      resolving_parser = resolve, set_list = sorted_list_of_set,
      requests_post = ticket_created, json_loads_ok = always,
      writable = can_write, now = ''01-Jan-2021 00:00:00''\<rparr>"

definition mixed_paths :: "(string \<times> (string \<times> operation) list) list" where
  "mixed_paths = [(''/pets'', [(''get'', list_pets), (''post'', anonymous_operation)])]"

definition mixed_spec :: openapi_specification where
  "mixed_spec = \<lparr>servers = None, paths = Some mixed_paths\<rparr>"

definition resolve_mixed :: "string \<Rightarrow> openapi_specification option" where
  "resolve_mixed f = Some mixed_spec"

text \<open>The dictionary the walker builds for the pet store.\<close>

definition petstore_dictionary :: service_dict where
  "petstore_dictionary =
     [((''listPets'', ''get'', ''/pets''),
       \<lparr>properties = None, required = None, example = None, tags = TagsList [''pets''],
        summary = ''List all pets'', description = '''', expected_status_code = JStr ''''\<rparr>),
      ((''createPet'', ''post'', ''/pets''),
       \<lparr>properties = schema_properties pet_schema, required = Some [''name''], example = None,
        tags = TagsList [''pets''], summary = ''Create a pet'',
        description = ''Creates a pet'', expected_status_code = JNum 201\<rparr>),
      ((''showPetById'', ''get'', ''/pets/{petId}''),
       \<lparr>properties = None, required = None, example = None, tags = TagsStr '''',
        summary = '''', description = '''', expected_status_code = JNum 201\<rparr>)]"

text \<open>Two servers whose urls both match the pattern of the includes renderer.\<close>

definition two_servers :: "server list" where
  "two_servers = [\<lparr>url = ''https://api.a.com/v1/x''\<rparr>, \<lparr>url = ''https://api.b.com/v2/y''\<rparr>]"


definition readonly_robot_env :: environment where
  "readonly_robot_env = sample_env resolve_petstore all_but_robot"

section \<open>Properties of the walker\<close>

lemma walk_append:
  "walk (xs @ ys) st = (case walk xs st of Inl e \<Rightarrow> Inl e | Inr st' \<Rightarrow> walk ys st')"
  by (induction xs arbitrary: st) (auto split: sum.splits)

lemma parse_operations_walk:
  "parse_operations path ops st = walk (map (\<lambda>(m, opn). (path, m, opn)) ops) st"
  by (induction ops arbitrary: st) (auto split: sum.splits)

lemma parse_paths_walk: "parse_paths ps st = walk (traversal ps) st"
proof (induction ps arbitrary: st)
  case Nil
  show ?case by (simp add: traversal_def)
next
  case (Cons a ps)
  obtain path ops where a: "a = (path, ops)" by (cases a)
  have t: "traversal (a # ps) = map (\<lambda>(m, opn). (path, m, opn)) ops @ traversal ps"
    by (simp add: traversal_def a)
  show ?case
    unfolding t walk_append
    by (simp add: a parse_operations_walk Cons.IH split: sum.splits)
qed

lemma parse_operation_no_id:
  "operationId opn = None \<Longrightarrow> parse_operation path st (m, opn) = Inl ValueError"
  by (simp add: parse_operation_def)

lemma fold_insert_set: "fold insert xs A = A \<union> set xs"
  by (induction xs arbitrary: A) auto

lemma parse_operation_InrD:
  assumes "parse_operation path st (m, opn) = Inr st'"
  shows "\<exists>oid code tc. operationId opn = Some oid
           \<and> response_status opn (status_code_var st) = Some code
           \<and> status_code_var st' = Some code
           \<and> service_dictionary st' = AList.update (oid, m, path) tc (service_dictionary st)
           \<and> expected_status_code tc = code
           \<and> varset st' = varset st \<union> set (property_names opn)"
proof -
  from assms obtain oid where o: "operationId opn = Some oid"
    by (cases "operationId opn") (simp_all add: parse_operation_def)
  obtain req props ex where r: "request_body_fields opn = (req, props, ex)"
    by (cases "request_body_fields opn")
  from assms o r obtain code where c: "response_status opn (status_code_var st) = Some code"
    by (cases "response_status opn (status_code_var st)") (simp_all add: parse_operation_def)
  have v: "(case props of None \<Rightarrow> varset st | Some ps \<Rightarrow> fold insert (map fst ps) (varset st))
             = varset st \<union> set (property_names opn)"
    by (cases props) (simp_all add: property_names_def r fold_insert_set)
  from assms have st': "st' = \<lparr>service_dictionary =
        AList.update (oid, m, path)
          \<lparr>properties = props, required = req, example = ex,
           tags = (case op_tags opn of Some ts \<Rightarrow> TagsList ts | None \<Rightarrow> TagsStr ''''),
           summary = (case op_summary opn of Some s \<Rightarrow> s | None \<Rightarrow> ''''),
           description = (case op_description opn of Some s \<Rightarrow> s | None \<Rightarrow> ''''),
           expected_status_code = code\<rparr>
          (service_dictionary st),
       varset = varset st \<union> set (property_names opn),
       status_code_var = Some code\<rparr>"
    by (simp add: parse_operation_def o r c v)
  show ?thesis
    unfolding st' using o c
    by (intro exI conjI; (rule refl | simp))
qed

lemma walk_missing_id:
  "(p, m, opn) \<in> set xs \<Longrightarrow> operationId opn = None \<Longrightarrow> \<exists>e. walk xs st = Inl e"
proof (induction xs arbitrary: st)
  case Nil
  then show ?case by simp
next
  case (Cons x xs)
  obtain p' m' o' where x: "x = (p', m', o')" by (cases x)
  show ?case
  proof (cases "parse_operation p' st (m', o')")
    case (Inl e)
    then show ?thesis by (simp add: x)
  next
    case (Inr st')
    then have "operationId o' \<noteq> None" by (auto dest: parse_operation_InrD)
    with Cons.prems x have "(p, m, opn) \<in> set xs" by auto
    from Cons.IH[OF this Cons.prems(2), of st'] show ?thesis by (simp add: x Inr)
  qed
qed






lemma traversal_mem:
  "(path, m, opn) \<in> set (traversal ps) \<longleftrightarrow> (\<exists>ops. (path, ops) \<in> set ps \<and> (m, opn) \<in> set ops)"
  by (force simp: traversal_def)

lemma parse_missing_id:
  assumes "resolve f = Some sp" "paths sp = Some ps"
    "(path, ops) \<in> set ps" "(m, opn) \<in> set ops" "operationId opn = None"
  shows "\<exists>e. parse_openapi_spec resolve sl f = Inl e"
proof -
  from assms(3,4) have "(path, m, opn) \<in> set (traversal ps)" by (auto simp: traversal_mem)
  from walk_missing_id[OF this assms(5)]
  obtain e where "parse_paths ps \<lparr>service_dictionary = [], varset = {}, status_code_var = None\<rparr> = Inl e"
    unfolding parse_paths_walk by blast
  then show ?thesis by (simp add: parse_openapi_spec_def assms(1,2))
qed

lemma transform_parse_error:
  assumes "parse_openapi_spec (resolving_parser env) (set_list env) f = Inl e"
  shows "snd (transform_openapi_to_robot env f out dir add key) = []
       \<and> (fst (transform_openapi_to_robot env f out dir add key) = Inl e
          \<or> fst (transform_openapi_to_robot env f out dir add key) = Inr False)"
  by (simp add: transform_openapi_to_robot_def assms Let_def split: option.splits prod.splits)

text \<open>
  Claim C4. When the interface description holds an operation without \<^verbatim>\<open>operationId\<close>,
  the transformation does not end in success and writes none of its output files: neither
  the matrix, nor the includes file, nor the script. The walker runs before any output file
  is opened, and its exception, or an earlier failure, ends the run.
\<close>

theorem missing_operationId_aborts:
  assumes "resolving_parser env f = Some sp" "paths sp = Some ps"
    "(path, ops) \<in> set ps" "(m, opn) \<in> set ops" "operationId opn = None"
  shows "snd (transform_openapi_to_robot env f out dir add key) = []
       \<and> fst (transform_openapi_to_robot env f out dir add key) \<noteq> Inr True"
proof -
  from parse_missing_id[where resolve = "resolving_parser env" and sl = "set_list env", OF assms]
  obtain e where
    "parse_openapi_spec (resolving_parser env) (set_list env) f = Inl e" by blast
  from transform_parse_error[OF this, of out dir add key] show ?thesis by auto
qed

lemma has_status_response:
  assumes "has_status opn"
  shows "\<exists>code. response_status opn s = Some code"
proof (cases "responses opn")
  case None
  with assms show ?thesis by (simp add: has_status_def)
next
  case (Some rs)
  with assms obtain k r rest where "rs = (k, r) # rest"
    by (cases rs) (auto simp: has_status_def)
  with Some show ?thesis by (cases "py_int k") (simp_all add: response_status_def)
qed

lemma walk_ok:
  "list_all (\<lambda>(p, m, opn). operationId opn \<noteq> None \<and> has_status opn) pre \<Longrightarrow> \<exists>st1. walk pre st = Inr st1"
proof (induction pre arbitrary: st)
  case Nil
  show ?case by simp
next
  case (Cons x pre)
  obtain p m opn where x: "x = (p, m, opn)" by (cases x)
  from Cons.prems obtain oid where o: "operationId opn = Some oid" and h: "has_status opn"
    and r: "list_all (\<lambda>(p, m, opn). operationId opn \<noteq> None \<and> has_status opn) pre"
    by (auto simp: x)
  from has_status_response[OF h] obtain code where
    "response_status opn (status_code_var st) = Some code" by blast
  then obtain st2 where "parse_operation p st (m, opn) = Inr st2"
    by (cases "request_body_fields opn") (simp add: parse_operation_def o)
  with Cons.IH[OF r, of st2] show ?case by (simp add: x)
qed

text \<open>
  Claim C5, amended. The walker reports a description that the resolving parser cannot load
  by returning the success indicator \<^verbatim>\<open>False\<close>. An operation without
  \<^verbatim>\<open>operationId\<close>, reached after operations that all have an \<^verbatim>\<open>operationId\<close> and
  a non-empty \<^verbatim>\<open>responses\<close> map, makes it raise \<^verbatim>\<open>ValueError\<close> past its
  boundary.
\<close>

theorem walker_failure_signals:
  "(resolve f = None \<longrightarrow> parse_openapi_spec resolve sl f = Inr (False, [], [], []))
   \<and> (resolve f = Some sp \<and> paths sp = Some ps
        \<and> traversal ps = pre @ (p, m, opn) # post
        \<and> list_all (\<lambda>(p, m, opn). operationId opn \<noteq> None \<and> has_status opn) pre
        \<and> operationId opn = None
      \<longrightarrow> parse_openapi_spec resolve sl f = Inl ValueError)"
proof (intro conjI impI)
  assume "resolve f = None"
  then show "parse_openapi_spec resolve sl f = Inr (False, [], [], [])"
    by (simp add: parse_openapi_spec_def)
next
  assume a: "resolve f = Some sp \<and> paths sp = Some ps
        \<and> traversal ps = pre @ (p, m, opn) # post
        \<and> list_all (\<lambda>(p, m, opn). operationId opn \<noteq> None \<and> has_status opn) pre
        \<and> operationId opn = None"
  let ?st = "\<lparr>service_dictionary = [], varset = {}, status_code_var = None\<rparr>"
  from a walk_ok[of pre ?st] obtain st1 where "walk pre ?st = Inr st1" by blast
  with a have "walk (traversal ps) ?st = Inl ValueError"
    by (simp add: walk_append parse_operation_no_id)
  with a show "parse_openapi_spec resolve sl f = Inl ValueError"
    by (simp add: parse_openapi_spec_def parse_paths_walk)
qed








lemma petstore_parsed:
  "parse_openapi_spec resolve_petstore sorted_list_of_set f
     = Inr (True, [\<lparr>url = ''https://api.example.com/v1/pets''\<rparr>], petstore_dictionary, [''name'', ''Tag''])"
  by (simp add: parse_openapi_spec_def resolve_petstore_def petstore_def petstore_paths_def) code_simp



theorem missing_operationId_aborts_witness:
  "snd (transform_openapi_to_robot (sample_env resolve_anonymous always)
          ''petstore.yaml'' ''export'' ''output'' False None) = []
   \<and> fst (transform_openapi_to_robot (sample_env resolve_anonymous always)
          ''petstore.yaml'' ''export'' ''output'' False None) \<noteq> Inr True"
  using missing_operationId_aborts[of "sample_env resolve_anonymous always" "''petstore.yaml''"
      anonymous_spec anonymous_paths "''/pets''" "[(''get'', anonymous_operation)]"
      "''get''" anonymous_operation "''export''" "''output''" False None]
  by (simp add: sample_env_def resolve_anonymous_def anonymous_spec_def anonymous_paths_def
        anonymous_operation_def)

text \<open>
  Claim C5 says that the walker never signals a failure by an exception that passes its
  boundary. For the description whose only operation has no \<^verbatim>\<open>operationId\<close> the
  call of \<^verbatim>\<open>parse_openapi_spec\<close> ends in \<^verbatim>\<open>ValueError\<close>.
\<close>

theorem walker_raises_counterexample:
  "parse_openapi_spec resolve_anonymous sorted_list_of_set ''petstore.yaml'' = Inl ValueError"
  by (simp add: parse_openapi_spec_def resolve_anonymous_def anonymous_spec_def
        anonymous_paths_def anonymous_operation_def parse_operation_def)

theorem walker_failure_signals_witness:
  "parse_openapi_spec resolve_nothing sorted_list_of_set ''petstore.yaml'' = Inr (False, [], [], [])
   \<and> parse_openapi_spec resolve_mixed sorted_list_of_set ''petstore.yaml'' = Inl ValueError"
  using walker_failure_signals[of resolve_nothing "''petstore.yaml''" sorted_list_of_set]
    walker_failure_signals[of resolve_mixed "''petstore.yaml''" sorted_list_of_set
      mixed_spec mixed_paths "[(''/pets'', ''get'', list_pets)]" "''/pets''" "''post''"
      anonymous_operation "[]"]
  by (simp add: resolve_nothing_def resolve_mixed_def mixed_spec_def mixed_paths_def
        traversal_def list_pets_def anonymous_operation_def has_status_def)



section \<open>Properties of the includes renderer\<close>

lemma find_base_url_last:
  "find_base_url svs d = last (d # List.map_filter (\<lambda>sv. re_search_base_url (url sv)) svs)"
  by (induction svs arbitrary: d) (auto simp: List.map_filter_simps split: option.splits)

lemma url_group_two_segments:
  assumes "CHR ''/'' \<notin> set a" "CHR ''/'' \<notin> set b"
  shows "url_group (host @ CHR ''/'' # a @ CHR ''/'' # b) = Some (CHR ''/'' # a @ CHR ''/'' # b)"
  using assms
  by (simp add: url_group_def Let_def takeWhile_append dropWhile_append takeWhile_eq_all_conv)

lemma re_search_prefix:
  assumes "CHR 0x0A \<notin> set line" "url_group line = Some g"
  shows "re_search_base_url (''https://api'' @ line) = Some g"
proof -
  have tw: "takeWhile (\<lambda>x. x \<noteq> CHR 0x0A) line = line"
    using assms(1) by (auto simp: takeWhile_eq_all_conv)
  have "re_search_base_url (''https://api'' @ line) =
          (case url_group (takeWhile (\<lambda>x. x \<noteq> CHR 0x0A) line) of
             Some g \<Rightarrow> Some g
           | None \<Rightarrow> re_search_base_url (''ttps://api'' @ line))"
    by (simp split: option.split)
  also have "\<dots> = Some g"
    unfolding tw assms(2) by simp
  finally show ?thesis .
qed

lemma re_search_two_segments:
  assumes "CHR ''/'' \<notin> set a" "CHR ''/'' \<notin> set b"
    "CHR 0x0A \<notin> set host" "CHR 0x0A \<notin> set a" "CHR 0x0A \<notin> set b"
  shows "re_search_base_url (''https://api'' @ host @ CHR ''/'' # a @ CHR ''/'' # b)
     = Some (CHR ''/'' # a @ CHR ''/'' # b)"
proof -
  have "CHR 0x0A \<notin> set (host @ CHR ''/'' # a @ CHR ''/'' # b)"
    using assms by simp
  from re_search_prefix[OF this url_group_two_segments[OF assms(1,2)]]
  show ?thesis .
qed

text \<open>
  Claim C3 says that the includes renderer takes the first server whose url matches. With two
  servers that both match, the first one ending in \<^verbatim>\<open>/v1/x\<close> and the second one in
  \<^verbatim>\<open>/v2/y\<close>, the text substituted into the includes file is \<^verbatim>\<open>/v2/y\<close>.
\<close>

theorem includes_first_match_counterexample:
  "re_search_base_url (url (hd two_servers)) = Some ''/v1/x''
   \<and> write_robot_framework_includes_file always ''now'' two_servers
        ''REPLACE_ROBOT_BASE_URL_REPLACE'' ''includes.resource'' ''petstore.yaml''
       = (True, Some (''includes.resource'', ''/v2/y''))"
  by code_simp

text \<open>
  Claim C3, amended. For every server list the includes renderer substitutes group 1 of the
  last entry whose url matches the pattern, and the sentinel
  \<^verbatim>\<open>BASE_URL_NOT_FOUND_AND_NEEDS_TO_BE_SET_MANUALLY\<close>, which is neither empty nor null,
  when no entry matches. For a url \<^verbatim>\<open>https://api<host>/<seg>/<seg>\<close> on one line, whose two
  segments hold no slash, group 1 is the trailing \<^verbatim>\<open>/<seg>/<seg>\<close>.
\<close>

theorem includes_base_url_last_match:
  "write_robot_framework_includes_file wr dt svs template_string target f =
     (if wr target
      then (True, Some (target,
              str_replace
                (str_replace
                   (str_replace template_string ''REPLACE_ROBOT_BASE_URL_REPLACE''
                      (last (''BASE_URL_NOT_FOUND_AND_NEEDS_TO_BE_SET_MANUALLY''
                               # List.map_filter (\<lambda>sv. re_search_base_url (url sv)) svs)))
                   ''REPLACE_OPENAPI_FILENAME_REPLACE'' f)
                ''REPLACE_DATETIME_CREATION_REPLACE'' dt))
      else (False, None))
   \<and> (CHR ''/'' \<notin> set a \<and> CHR ''/'' \<notin> set b
        \<and> CHR 0x0A \<notin> set host \<and> CHR 0x0A \<notin> set a \<and> CHR 0x0A \<notin> set b
      \<longrightarrow> re_search_base_url (''https://api'' @ host @ ''/'' @ a @ ''/'' @ b)
            = Some (''/'' @ a @ ''/'' @ b))"
  using re_search_two_segments[of a b host]
  by (simp add: write_robot_framework_includes_file_def find_base_url_last base_url_default_def)

theorem includes_base_url_last_match_witness:
  "write_robot_framework_includes_file always ''now'' two_servers
        ''REPLACE_ROBOT_BASE_URL_REPLACE'' ''includes.resource'' ''petstore.yaml''
       = (True, Some (''includes.resource'', ''/v2/y''))
   \<and> write_robot_framework_includes_file always ''now'' []
        ''REPLACE_ROBOT_BASE_URL_REPLACE'' ''includes.resource'' ''petstore.yaml''
       = (True, Some (''includes.resource'', ''BASE_URL_NOT_FOUND_AND_NEEDS_TO_BE_SET_MANUALLY''))
   \<and> re_search_base_url ''https://api.example.com/v1/pets'' = Some ''/v1/pets''"
proof -
  have m: "List.map_filter (\<lambda>sv. re_search_base_url (url sv)) two_servers = [''/v1/x'', ''/v2/y'']"
    by code_simp
  have r1: "str_replace ''REPLACE_ROBOT_BASE_URL_REPLACE'' ''REPLACE_ROBOT_BASE_URL_REPLACE'' x = x" for x
    by simp
  have r2: "str_replace ''/v2/y'' ''REPLACE_OPENAPI_FILENAME_REPLACE'' x = ''/v2/y''"
    "str_replace ''/v2/y'' ''REPLACE_DATETIME_CREATION_REPLACE'' x = ''/v2/y''" for x
    by simp_all
  have r3: "str_replace ''BASE_URL_NOT_FOUND_AND_NEEDS_TO_BE_SET_MANUALLY'' ''REPLACE_OPENAPI_FILENAME_REPLACE'' x
       = ''BASE_URL_NOT_FOUND_AND_NEEDS_TO_BE_SET_MANUALLY''"
    "str_replace ''BASE_URL_NOT_FOUND_AND_NEEDS_TO_BE_SET_MANUALLY'' ''REPLACE_DATETIME_CREATION_REPLACE'' x
       = ''BASE_URL_NOT_FOUND_AND_NEEDS_TO_BE_SET_MANUALLY''" for x
    by simp_all
  show ?thesis
    using includes_base_url_last_match[of always "''now''" two_servers
        "''REPLACE_ROBOT_BASE_URL_REPLACE''" "''includes.resource''" "''petstore.yaml''"
        "''v1''" "''pets''" "''.example.com''"]
      includes_base_url_last_match[of always "''now''" "[]"
        "''REPLACE_ROBOT_BASE_URL_REPLACE''" "''includes.resource''" "''petstore.yaml''"]
    by (simp add: m r1 r2 r3 always_def List.map_filter_simps)
qed

section \<open>Properties of the orchestrator and of the ticket mirror\<close>

lemma sample_templates_read:
  "read_template_files (sample_env resolve can_write) =
     Some (''URL=REPLACE_ROBOT_BASE_URL_REPLACE'', ''H REPLACE_DATA_DRIVER_ARGUMENTS_REPLACE;'',
           None, ''B REPLACE_OPERATIONID_REPLACE;'', ''N REPLACE_OPERATIONID_REPLACE;'')"
  by (simp add: read_template_files_def read_template_file_from_disk_def check_if_file_exists_def
        sample_env_def sample_isfile_def sample_templates_def path_join_def)

lemma transform_without_tickets:
  assumes "check_and_create_data_directory env dir"
    "read_template_files env = Some (inc, hdr, ftr, kb, knb)"
    "check_if_file_exists env f"
    "parse_openapi_spec (resolving_parser env) (set_list env) f = Inr (True, svs, sd, asv)"
    "writable env (path_join dir (out @ ''.xlsx''))"
    "writable env (path_join dir ''includes.resource'')"
  shows "fst (transform_openapi_to_robot env f out dir add None) = Inr True"
  using assms
  by (simp add: transform_openapi_to_robot_def Let_def write_robot_framework_includes_file_def
        split: prod.splits)

text \<open>
  Claim C2: a failure of the script renderer ends the run in failure. In an environment in which
  everything succeeds except opening the script file for writing,
  \<^verbatim>\<open>write_robot_framework_test_case_file\<close> returns \<^verbatim>\<open>False\<close> and
  \<^verbatim>\<open>transform_openapi_to_robot\<close> returns \<^verbatim>\<open>True\<close> all the same: the orchestrator
  stores the flag and does not look at it.
\<close>

theorem robot_failure_reported_as_success:
  "write_robot_framework_test_case_file (writable readonly_robot_env) (now readonly_robot_env)
       [''name'', ''Tag''] petstore_dictionary ''output/export.robot'' ''petstore.yaml''
       ''H REPLACE_DATA_DRIVER_ARGUMENTS_REPLACE;'' None
       ''B REPLACE_OPERATIONID_REPLACE;'' ''N REPLACE_OPERATIONID_REPLACE;'' = (False, None)
   \<and> fst (transform_openapi_to_robot readonly_robot_env ''petstore.yaml'' ''export'' ''output''
            False None) = Inr True"
proof -
  have p: "parse_openapi_spec (resolving_parser readonly_robot_env) (set_list readonly_robot_env)
             ''petstore.yaml''
       = Inr (True, [\<lparr>url = ''https://api.example.com/v1/pets''\<rparr>], petstore_dictionary,
              [''name'', ''Tag''])"
    using petstore_parsed[of "''petstore.yaml''"]
    by (simp add: readonly_robot_env_def sample_env_def)
  have t: "read_template_files readonly_robot_env =
     Some (''URL=REPLACE_ROBOT_BASE_URL_REPLACE'', ''H REPLACE_DATA_DRIVER_ARGUMENTS_REPLACE;'',
           None, ''B REPLACE_OPERATIONID_REPLACE;'', ''N REPLACE_OPERATIONID_REPLACE;'')"
    unfolding readonly_robot_env_def by (rule sample_templates_read)
  have d: "check_and_create_data_directory readonly_robot_env ''output''"
    by (simp add: check_and_create_data_directory_def readonly_robot_env_def sample_env_def always_def)
  have e: "check_if_file_exists readonly_robot_env ''petstore.yaml''"
    by (simp add: check_if_file_exists_def readonly_robot_env_def sample_env_def sample_isfile_def)
  have w1: "writable readonly_robot_env (path_join ''output'' (''export'' @ ''.xlsx''))"
    by (simp add: readonly_robot_env_def sample_env_def all_but_robot_def path_join_def)
  have w2: "writable readonly_robot_env (path_join ''output'' ''includes.resource'')"
    by (simp add: readonly_robot_env_def sample_env_def all_but_robot_def path_join_def)
  have w3: "\<not> writable readonly_robot_env ''output/export.robot''"
    by (simp add: readonly_robot_env_def sample_env_def all_but_robot_def)
  from w3 transform_without_tickets[OF d t e p w1 w2, of False]
  show ?thesis by (simp add: write_robot_framework_test_case_file_def)
qed






section \<open>Properties of the matrix renderer and of the shared variable order\<close>

lemma cells_ws_write:
  "cells (ws_write row col v fmt ws) rc = (if rc = (row, col) then Some (v, fmt) else cells ws rc)"
  by (simp add: ws_write_def)



lemma write_header_variables_rows:
  "0 < r \<Longrightarrow> cells (write_header_variables vs col ws) (r, c) = cells ws (r, c)"
  by (induction vs arbitrary: col ws) (simp_all add: cells_ws_write)





lemma list_index_mem: "a \<in> set xs \<Longrightarrow> \<exists>j. list_index xs a = Some j"
  by (induction xs) auto
















section \<open>Properties of the script renderer\<close>

















end
